theory Spec2Isabelle
  imports Main
begin

section \<open>Python values\<close>

text \<open>
  The environment of \<^verbatim>\<open>fargate_task.py\<close> passes keyword options through to boto3.
  Their values are plain Python data: \<^verbatim>\<open>None\<close>, booleans, integers, strings, lists
  and dictionaries with string keys. A dictionary keeps its items in insertion order, so
  it is an association list; a dictionary built by Python never holds a key twice.

  A list or a dictionary is an object, and a caller may hand the same object over in
  several places. \<open>PShared n v\<close> is the object with identity \<open>n\<close>, whose content is \<open>v\<close>,
  wherever it occurs; a list or dictionary written without an identity is an object held
  in that one place only. A value is a finite tree, so no object contains itself.
\<close>

datatype pyval =
    PNone
  | PBool bool
  | PInt int
  | PStr string
  | PList "pyval list"
  | PDict "(string \<times> pyval) list"
  | PShared nat pyval

type_synonym dict = "(string \<times> pyval) list"

text \<open>Python's truth value of an object: what \<^verbatim>\<open>not x\<close> and \<^verbatim>\<open>x or y\<close> test.\<close>

fun truthy :: "pyval \<Rightarrow> bool" where
  "truthy PNone = False"
| "truthy (PBool b) = b"
| "truthy (PInt i) = (i \<noteq> 0)"
| "truthy (PStr s) = (s \<noteq> [])"
| "truthy (PList xs) = (xs \<noteq> [])"
| "truthy (PDict d) = (d \<noteq> [])"
| "truthy (PShared n v) = truthy v"

definition py_or :: "pyval \<Rightarrow> pyval \<Rightarrow> pyval" where
  "py_or a b = (if truthy a then a else b)"

text \<open>\<^verbatim>\<open>d.get(k)\<close>: the value stored under \<open>k\<close>, or \<^verbatim>\<open>None\<close>.\<close>

definition dict_get :: "dict \<Rightarrow> string \<Rightarrow> pyval" where
  "dict_get d k = (case map_of d k of None \<Rightarrow> PNone | Some v \<Rightarrow> v)"

text \<open>
  \<^verbatim>\<open>d[k] = v\<close> and \<^verbatim>\<open>d.update({k: v})\<close>: an existing key keeps its place and gets
  the new value, a new key goes to the end.
\<close>

fun dict_set :: "dict \<Rightarrow> string \<Rightarrow> pyval \<Rightarrow> dict" where
  "dict_set [] k v = [(k, v)]"
| "dict_set ((k', v') # d) k v =
     (if k' = k then (k, v) # d else (k', v') # dict_set d k v)"

definition keys :: "dict \<Rightarrow> string list" where
  "keys d = map fst d"

text \<open>The object itself, whether shared or not.\<close>

fun content :: "pyval \<Rightarrow> pyval" where
  "content (PShared n v) = content v"
| "content v = v"

text \<open>
  \<open>replace_shared n new v\<close>: the value \<open>v\<close> after the object with identity \<open>n\<close> got the
  content \<open>new\<close>.
\<close>

fun replace_shared :: "nat \<Rightarrow> pyval \<Rightarrow> pyval \<Rightarrow> pyval" where
  "replace_shared n new (PShared m v) =
     (if m = n then PShared n new else PShared m (replace_shared n new v))"
| "replace_shared n new (PList xs) = PList (map (replace_shared n new) xs)"
| "replace_shared n new (PDict d) = PDict (map (map_prod id (replace_shared n new)) d)"
| "replace_shared n new v = v"

section \<open>Partitioning the keyword options\<close>

definition definition_kwarg_list :: "string list" where
  "definition_kwarg_list =
     [''family'', ''taskRoleArn'', ''executionRoleArn'', ''networkMode'',
      ''containerDefinitions'', ''volumes'', ''placementConstraints'',
      ''requiresCompatibilities'', ''cpu'', ''memory'', ''tags'', ''pidMode'',
      ''ipcMode'', ''proxyConfiguration'', ''inferenceAccelerators'']"

definition run_kwarg_list :: "string list" where
  "run_kwarg_list =
     [''cluster'', ''taskDefinition'', ''count'', ''startedBy'', ''group'',
      ''placementConstraints'', ''placementStrategy'', ''platformVersion'',
      ''networkConfiguration'', ''tags'', ''enableECSManagedTags'', ''propagateTags'']"

text \<open>
  One loop of \<^verbatim>\<open>_parse_kwargs\<close>: walk the items of \<^verbatim>\<open>user_kwargs\<close> and update the
  result with every item whose key is in the list.
\<close>

fun collect_kwargs :: "string list \<Rightarrow> dict \<Rightarrow> dict \<Rightarrow> dict" where
  "collect_kwargs allowed acc [] = acc"
| "collect_kwargs allowed acc ((key, item) # rest) =
     collect_kwargs allowed
       (if key \<in> set allowed then dict_set acc key item else acc) rest"

definition parse_kwargs :: "dict \<Rightarrow> dict \<times> dict" where
  "parse_kwargs user_kwargs =
     (let task_definition_kwargs = collect_kwargs definition_kwarg_list [] user_kwargs;
          task_run_kwargs = collect_kwargs run_kwarg_list [] user_kwargs
      in (task_definition_kwargs, task_run_kwargs))"

section \<open>Exceptions and the world outside the file\<close>

text \<open>
  An exception raised while the code runs is a value. \<open>ClientError\<close> is botocore's class
  for an error response of the service and carries the response's error code
  (\<^verbatim>\<open>e.response["Error"]["Code"]\<close>); the code's \<^verbatim>\<open>except ClientError\<close> clause matches the
  class and never reads the error code. \<open>OtherException\<close> stands for an exception of
  any class that is not a \<open>ClientError\<close>, named by its class.
\<close>

datatype py_exception =
    ClientError string
  | TypeError
  | AttributeError
  | IndexError
  | KeyError
  | OtherException string

text \<open>The calls made on the ECS client, with their keyword arguments, in the order made.\<close>

datatype api_call =
    DescribeTaskDefinition pyval
  | RegisterTaskDefinition dict
  | RunTask dict

text \<open>
  The client that \<^verbatim>\<open>boto3.client("ecs", ...)\<close> returns: each operation answers with a
  response (which the code drops) or raises.
\<close>

record ecs_client =
  describe_task_definition :: "pyval \<Rightarrow> py_exception + pyval"
  register_task_definition :: "dict \<Rightarrow> py_exception + pyval"
  run_task :: "dict \<Rightarrow> py_exception + pyval"

text \<open>
  What the code reads and calls outside its own file, taken as parameters: the process
  environment (\<^verbatim>\<open>os.getenv\<close>, \<^verbatim>\<open>None\<close> for an unset variable), the default executor class
  called with keyword arguments, the boto3 client factory called with the four credential
  fields, \<^verbatim>\<open>get_flow_image\<close>, the configuration values read, the builtin \<^verbatim>\<open>str\<close> and
  \<^verbatim>\<open>prefect.context\<close>. The two token lookups of the configuration raise when the
  configuration does not hold the key.
\<close>

record ('flow, 'ex) runtime =
  getenv :: "string \<Rightarrow> pyval"
  get_default_executor_class :: "dict \<Rightarrow> py_exception + 'ex"
  boto3_client :: "pyval \<Rightarrow> pyval \<Rightarrow> pyval \<Rightarrow> pyval \<Rightarrow> py_exception + ecs_client"
  get_flow_image :: "'flow \<Rightarrow> py_exception + pyval"
  config_cloud_graphql :: pyval
  config_cloud_agent_auth_token :: "py_exception + pyval"
  config_cloud_auth_token :: "py_exception + pyval"
  config_logging_extra_loggers :: pyval
  py_str :: "pyval \<Rightarrow> string"
  prefect_context :: dict

section \<open>Construction\<close>

text \<open>
  The \<^verbatim>\<open>executor\<close> argument is any object: a plain value (\<^verbatim>\<open>None\<close> among them) or an
  instance of \<^verbatim>\<open>Executor\<close>.
\<close>

datatype 'ex executor_arg =
    Plain pyval
  | ExecutorInstance 'ex

record ('ex, 'cb) init_args =
  arg_launch_type :: pyval
  arg_aws_access_key_id :: pyval
  arg_aws_secret_access_key :: pyval
  arg_aws_session_token :: pyval
  arg_region_name :: pyval
  arg_executor :: "'ex executor_arg"
  arg_executor_kwargs :: pyval
  arg_labels :: pyval
  arg_on_start :: "'cb option"
  arg_on_exit :: "'cb option"
  arg_metadata :: pyval
  arg_kwargs :: dict

text \<open>The defaults of the signature of \<^verbatim>\<open>__init__\<close>.\<close>

definition default_args :: "('ex, 'cb) init_args" where
  "default_args =
     \<lparr>arg_launch_type = PStr ''FARGATE'',
      arg_aws_access_key_id = PNone,
      arg_aws_secret_access_key = PNone,
      arg_aws_session_token = PNone,
      arg_region_name = PNone,
      arg_executor = Plain PNone,
      arg_executor_kwargs = PNone,
      arg_labels = PNone,
      arg_on_start = None,
      arg_on_exit = None,
      arg_metadata = PNone,
      arg_kwargs = []\<rparr>"

record ('ex, 'cb) fargate_task_environment =
  launch_type :: pyval
  aws_access_key_id :: pyval
  aws_secret_access_key :: pyval
  aws_session_token :: pyval
  region_name :: pyval
  task_definition_kwargs :: dict
  task_run_kwargs :: dict
  executor :: 'ex
  labels :: pyval
  on_start :: "'cb option"
  on_exit :: "'cb option"
  metadata :: pyval

text \<open>
  \<^verbatim>\<open>f(**x)\<close>: the keyword arguments a call receives from \<open>x\<close>, which must be a mapping.
\<close>

definition star_kwargs :: "pyval \<Rightarrow> py_exception + dict" where
  "star_kwargs x = (case content x of PDict d \<Rightarrow> Inr d | _ \<Rightarrow> Inl TypeError)"

definition deprecation_warning :: string where
  "deprecation_warning = ''`executor_kwargs` is deprecated, use `executor` instead''"

text \<open>
  \<^verbatim>\<open>__init__\<close>. The result is the warnings emitted, and the exception raised or the
  instance built.

  Modelled from the spec: the initialiser of the base class \<^verbatim>\<open>Environment\<close>, which is not
  in the file; the spec's configuration record keeps the labels, the two callbacks and
  the metadata, and names no failure of it.
\<close>

definition init ::
  "('flow, 'ex) runtime \<Rightarrow> ('ex, 'cb) init_args \<Rightarrow>
   string list \<times> (py_exception + ('ex, 'cb) fargate_task_environment)" where
  "init rt a =
     (let self_aws_access_key_id =
            py_or (arg_aws_access_key_id a) (getenv rt ''AWS_ACCESS_KEY_ID'');
          self_aws_secret_access_key =
            py_or (arg_aws_secret_access_key a) (getenv rt ''AWS_SECRET_ACCESS_KEY'');
          self_aws_session_token =
            py_or (arg_aws_session_token a) (getenv rt ''AWS_SESSION_TOKEN'');
          self_region_name = py_or (arg_region_name a) (getenv rt ''REGION_NAME'');
          parsed = parse_kwargs (arg_kwargs a);
          warnings =
            (if arg_executor_kwargs a \<noteq> PNone then [deprecation_warning] else []);
          built = (\<lambda>ex.
            \<lparr>launch_type = arg_launch_type a,
             aws_access_key_id = self_aws_access_key_id,
             aws_secret_access_key = self_aws_secret_access_key,
             aws_session_token = self_aws_session_token,
             region_name = self_region_name,
             task_definition_kwargs = fst parsed,
             task_run_kwargs = snd parsed,
             executor = ex,
             labels = arg_labels a,
             on_start = arg_on_start a,
             on_exit = arg_on_exit a,
             metadata = arg_metadata a\<rparr>)
      in case arg_executor a of
           Plain PNone \<Rightarrow>
             (case star_kwargs (py_or (arg_executor_kwargs a) (PDict [])) of
                Inl e \<Rightarrow> (warnings, Inl e)
              | Inr executor_kwargs \<Rightarrow>
                  (case get_default_executor_class rt executor_kwargs of
                     Inl e \<Rightarrow> (warnings, Inl e)
                   | Inr ex \<Rightarrow> (warnings, Inr (built ex))))
         | Plain _ \<Rightarrow> (warnings, Inl TypeError)
         | ExecutorInstance ex \<Rightarrow> (warnings, Inr (built ex)))"

section \<open>Setup\<close>

text \<open>
  What a method did: the instance afterwards (its mappings are mutated in place, so a
  change made before an exception stays), the client calls made, and the exception that
  left the method, if any.
\<close>

record ('ex, 'cb) outcome =
  state :: "('ex, 'cb) fargate_task_environment"
  calls :: "api_call list"
  raised :: "py_exception option"

definition env_values :: "('flow, 'ex) runtime \<Rightarrow> pyval list" where
  "env_values rt =
     [PDict [(''name'', PStr ''PREFECT__CLOUD__GRAPHQL''),
             (''value'', config_cloud_graphql rt)],
      PDict [(''name'', PStr ''PREFECT__CLOUD__USE_LOCAL_SECRETS''),
             (''value'', PStr ''false'')],
      PDict [(''name'', PStr ''PREFECT__ENGINE__FLOW_RUNNER__DEFAULT_CLASS''),
             (''value'', PStr ''prefect.engine.cloud.CloudFlowRunner'')],
      PDict [(''name'', PStr ''PREFECT__ENGINE__TASK_RUNNER__DEFAULT_CLASS''),
             (''value'', PStr ''prefect.engine.cloud.CloudTaskRunner'')],
      PDict [(''name'', PStr ''PREFECT__LOGGING__LOG_TO_CLOUD''),
             (''value'', PStr ''true'')],
      PDict [(''name'', PStr ''PREFECT__LOGGING__EXTRA_LOGGERS''),
             (''value'', PStr (py_str rt (config_logging_extra_loggers rt)))]]"

definition flow_command :: pyval where
  "flow_command =
     PList [PStr ''/bin/sh'', PStr ''-c'',
            PStr (''python -c 'import prefect; prefect.environments.FargateTaskEnvironment().run_flow()''
                  @ [CHR 0x27])]"

text \<open>
  An object that is held in several places of the instance changes in all of them when the
  code mutates it: \<open>assign_shared n new\<close> gives the object with identity \<open>n\<close> the content
  \<open>new\<close> wherever the instance holds it.
\<close>

definition assign_shared ::
  "nat \<Rightarrow> pyval \<Rightarrow> ('ex, 'cb) fargate_task_environment \<Rightarrow>
   ('ex, 'cb) fargate_task_environment" where
  "assign_shared n new self =
     self\<lparr>launch_type := replace_shared n new (launch_type self),
          aws_access_key_id := replace_shared n new (aws_access_key_id self),
          aws_secret_access_key := replace_shared n new (aws_secret_access_key self),
          aws_session_token := replace_shared n new (aws_session_token self),
          region_name := replace_shared n new (region_name self),
          task_definition_kwargs :=
            map (map_prod id (replace_shared n new)) (task_definition_kwargs self),
          task_run_kwargs :=
            map (map_prod id (replace_shared n new)) (task_run_kwargs self),
          labels := replace_shared n new (labels self),
          metadata := replace_shared n new (metadata self)\<rparr>"

text \<open>\<^verbatim>\<open>self.task_definition_kwargs[k] = v\<close>.\<close>

definition store_kwarg ::
  "string \<Rightarrow> pyval \<Rightarrow> ('ex, 'cb) fargate_task_environment \<Rightarrow>
   ('ex, 'cb) fargate_task_environment" where
  "store_kwarg k v self =
     self\<lparr>task_definition_kwargs := dict_set (task_definition_kwargs self) k v\<rparr>"

text \<open>
  The statements that change the instance are steps: each gives the instance as it left
  it, and the exception it raised, if any. A sequence of statements stops at the first
  exception.
\<close>

type_synonym ('ex, 'cb) step =
  "('ex, 'cb) fargate_task_environment \<Rightarrow>
   ('ex, 'cb) fargate_task_environment \<times> py_exception option"

fun run_steps :: "('ex, 'cb) step list \<Rightarrow> ('ex, 'cb) step" where
  "run_steps [] self = (self, None)"
| "run_steps (s # ss) self =
     (case s self of
        (self', None) \<Rightarrow> run_steps ss self'
      | (self', Some e) \<Rightarrow> (self', Some e))"

text \<open>
  \<^verbatim>\<open>if not kwargs.get("containerDefinitions"):\<close> store an empty list, then append an
  empty dictionary to it. Both are new objects.
\<close>

definition create_container_definitions :: "('ex, 'cb) step" where
  "create_container_definitions self =
     (if \<not> truthy (dict_get (task_definition_kwargs self) ''containerDefinitions'') then
        (let self1 = store_kwarg ''containerDefinitions'' (PList []) self
         in case dict_get (task_definition_kwargs self1) ''containerDefinitions'' of
              PList ds \<Rightarrow>
                (store_kwarg ''containerDefinitions'' (PList (ds @ [PDict []])) self1, None)
            | _ \<Rightarrow> (self1, Some AttributeError))
      else (self, None))"

text \<open>The entries of the list stored under \<^verbatim>\<open>containerDefinitions\<close>, as they are now.\<close>

definition current_definitions :: "('ex, 'cb) fargate_task_environment \<Rightarrow> pyval list" where
  "current_definitions self =
     (case content (dict_get (task_definition_kwargs self) ''containerDefinitions'') of
        PList ds \<Rightarrow> ds
      | _ \<Rightarrow> [])"

text \<open>
  The dictionary that is entry \<open>i\<close> of the container list gets the content \<open>d\<close>, in place.
  When the dictionary is a shared object, every holder sees the change. Otherwise the
  list holds it, and the list, where it is a shared object itself, changes for every
  holder.
\<close>

definition set_definition ::
  "nat \<Rightarrow> dict \<Rightarrow> ('ex, 'cb) fargate_task_environment \<Rightarrow>
   ('ex, 'cb) fargate_task_environment" where
  "set_definition i d self =
     (if i < length (current_definitions self) then
        (case current_definitions self ! i of
           PShared n old \<Rightarrow> assign_shared n (PDict d) self
         | _ \<Rightarrow>
             (case dict_get (task_definition_kwargs self) ''containerDefinitions'' of
                PShared m old \<Rightarrow>
                  assign_shared m (PList ((current_definitions self)[i := PDict d])) self
              | _ \<Rightarrow>
                  store_kwarg ''containerDefinitions''
                    (PList ((current_definitions self)[i := PDict d])) self))
      else self)"

text \<open>
  The body of the loop over the container definitions, for the entry at index \<open>i\<close>:
  \<^verbatim>\<open>definition.get\<close> needs a dictionary, a falsy environment is replaced by a new list, and
  \<^verbatim>\<open>extend\<close> needs a list, which it extends in place: a list object that several entries
  hold is extended for all of them.
\<close>

definition extend_environment :: "pyval list \<Rightarrow> nat \<Rightarrow> ('ex, 'cb) step" where
  "extend_environment env_vals i self =
     (case content (current_definitions self ! i) of
        PDict d \<Rightarrow>
          (let self1 = (if \<not> truthy (dict_get d ''environment'')
                        then set_definition i (dict_set d ''environment'' (PList [])) self
                        else self);
               d1 = (if \<not> truthy (dict_get d ''environment'')
                     then dict_set d ''environment'' (PList []) else d)
           in case dict_get d1 ''environment'' of
                PShared l old \<Rightarrow>
                  (case content old of
                     PList es \<Rightarrow> (assign_shared l (PList (es @ env_vals)) self1, None)
                   | _ \<Rightarrow> (self1, Some AttributeError))
              | PList es \<Rightarrow>
                  (set_definition i (dict_set d1 ''environment'' (PList (es @ env_vals))) self1,
                   None)
              | _ \<Rightarrow> (self1, Some AttributeError))
      | _ \<Rightarrow> (self, Some AttributeError))"

text \<open>
  The loop, from index \<open>i\<close> on, over \<open>n\<close> more entries. It reads each entry from the list as
  it is when the entry's turn comes, so it sees what earlier turns did to a shared object.
  A value is a finite tree, so the list is not the environment list of one of its own
  entries and keeps its length while the loop runs.
\<close>

fun set_environments :: "pyval list \<Rightarrow> nat \<Rightarrow> nat \<Rightarrow> ('ex, 'cb) step" where
  "set_environments env_vals i 0 self = (self, None)"
| "set_environments env_vals i (Suc n) self =
     (if i < length (current_definitions self) then
        (case extend_environment env_vals i self of
           (self', Some e) \<Rightarrow> (self', Some e)
         | (self', None) \<Rightarrow> set_environments env_vals (Suc i) n self')
      else (self, None))"

text \<open>
  \<^verbatim>\<open>for definition in kwargs["containerDefinitions"]\<close>: a list gives its entries, a
  string its characters and a dictionary its keys (strings, which have no \<^verbatim>\<open>get\<close>); the
  other values cannot be iterated.
\<close>

definition set_environment_variables :: "pyval list \<Rightarrow> ('ex, 'cb) step" where
  "set_environment_variables env_vals self =
     (case map_of (task_definition_kwargs self) ''containerDefinitions'' of
        None \<Rightarrow> (self, Some KeyError)
      | Some v \<Rightarrow>
          (case content v of
             PList ds \<Rightarrow> set_environments env_vals 0 (length ds) self
           | PStr s \<Rightarrow> (self, if s = [] then None else Some AttributeError)
           | PDict d \<Rightarrow> (self, if d = [] then None else Some AttributeError)
           | _ \<Rightarrow> (self, Some TypeError)))"

text \<open>
  The two ways the code reaches the container list: \<^verbatim>\<open>kwargs["containerDefinitions"]\<close>
  and \<^verbatim>\<open>kwargs.get("containerDefinitions")\<close>.
\<close>

definition subscript_definitions :: "dict \<Rightarrow> py_exception + pyval" where
  "subscript_definitions tdk =
     (case map_of tdk ''containerDefinitions'' of None \<Rightarrow> Inl KeyError | Some v \<Rightarrow> Inr v)"

definition get_definitions :: "dict \<Rightarrow> py_exception + pyval" where
  "get_definitions tdk = Inr (dict_get tdk ''containerDefinitions'')"

text \<open>\<^verbatim>\<open>x[0]\<close>.\<close>

definition first_item :: "pyval \<Rightarrow> py_exception + pyval" where
  "first_item x =
     (case content x of
        PList [] \<Rightarrow> Inl IndexError
      | PList (y # ys) \<Rightarrow> Inr y
      | PStr [] \<Rightarrow> Inl IndexError
      | PStr (c # cs) \<Rightarrow> Inr (PStr [c])
      | PDict d \<Rightarrow> Inl KeyError
      | _ \<Rightarrow> Inl TypeError)"

text \<open>\<^verbatim>\<open><container list>[0].get(k)\<close>.\<close>

definition first_container_get ::
  "(dict \<Rightarrow> py_exception + pyval) \<Rightarrow> string \<Rightarrow>
   ('ex, 'cb) fargate_task_environment \<Rightarrow> py_exception + pyval" where
  "first_container_get definitions k self =
     (case definitions (task_definition_kwargs self) of
        Inl e \<Rightarrow> Inl e
      | Inr ds \<Rightarrow>
          (case first_item ds of
             Inl e \<Rightarrow> Inl e
           | Inr y \<Rightarrow>
               (case content y of
                  PDict c \<Rightarrow> Inr (dict_get c k)
                | _ \<Rightarrow> Inl AttributeError)))"

text \<open>\<^verbatim>\<open><container list>[0][k] = v\<close>: the first entry is changed in place.\<close>

definition first_container_set ::
  "(dict \<Rightarrow> py_exception + pyval) \<Rightarrow> string \<Rightarrow> pyval \<Rightarrow> ('ex, 'cb) step" where
  "first_container_set definitions k v self =
     (case definitions (task_definition_kwargs self) of
        Inl e \<Rightarrow> (self, Some e)
      | Inr ds \<Rightarrow>
          (case first_item ds of
             Inl e \<Rightarrow> (self, Some e)
           | Inr y \<Rightarrow>
               (case content y of
                  PDict c \<Rightarrow>
                    (case content ds of
                       PList entries \<Rightarrow> (set_definition 0 (dict_set c k v) self, None)
                     | _ \<Rightarrow> (self, Some TypeError))
                | _ \<Rightarrow> (self, Some TypeError))))"

text \<open>\<^verbatim>\<open>if not kwargs["containerDefinitions"][0].get(k): kwargs["containerDefinitions"][0][k] = v\<close>.\<close>

definition default_first_container :: "string \<Rightarrow> pyval \<Rightarrow> ('ex, 'cb) step" where
  "default_first_container k v self =
     (case first_container_get subscript_definitions k self of
        Inl e \<Rightarrow> (self, Some e)
      | Inr x \<Rightarrow>
          (if \<not> truthy x then first_container_set subscript_definitions k v self
           else (self, None)))"

text \<open>
  \<^verbatim>\<open>kwargs.get("containerDefinitions")[0]["image"] = get_flow_image(flow)\<close>: the right-hand
  side is evaluated first.
\<close>

definition set_image :: "('flow, 'ex) runtime \<Rightarrow> 'flow \<Rightarrow> ('ex, 'cb) step" where
  "set_image rt flow self =
     (case get_flow_image rt flow of
        Inl e \<Rightarrow> (self, Some e)
      | Inr flow_image \<Rightarrow> first_container_set get_definitions ''image'' flow_image self)"

text \<open>The body of \<^verbatim>\<open>if not definition_exists:\<close> up to the registration call.\<close>

definition synthesize_definition :: "('flow, 'ex) runtime \<Rightarrow> 'flow \<Rightarrow> ('ex, 'cb) step" where
  "synthesize_definition rt flow =
     run_steps
       [create_container_definitions,
        set_environment_variables (env_values rt),
        default_first_container ''name'' (PStr ''''),
        first_container_set get_definitions ''name'' (PStr ''flow-container''),
        default_first_container ''image'' (PStr ''''),
        set_image rt flow,
        default_first_container ''command'' (PList []),
        first_container_set get_definitions ''command'' flow_command]"

text \<open>
  The existence check: \<^verbatim>\<open>definition_exists\<close> stays true when the call returns, becomes
  false when it raises a \<open>ClientError\<close>, and any other exception leaves the method.
\<close>

definition existence_check :: "ecs_client \<Rightarrow> pyval \<Rightarrow> py_exception + bool" where
  "existence_check boto3_c family =
     (case describe_task_definition boto3_c family of
        Inr response \<Rightarrow> Inr True
      | Inl (ClientError code) \<Rightarrow> Inr False
      | Inl e \<Rightarrow> Inl e)"

definition setup_env ::
  "('flow, 'ex) runtime \<Rightarrow> ('ex, 'cb) fargate_task_environment \<Rightarrow> 'flow \<Rightarrow>
   ('ex, 'cb) outcome" where
  "setup_env rt self flow =
     (case boto3_client rt (aws_access_key_id self) (aws_secret_access_key self)
             (aws_session_token self) (region_name self) of
        Inl e \<Rightarrow> \<lparr>state = self, calls = [], raised = Some e\<rparr>
      | Inr boto3_c \<Rightarrow>
          (let family = dict_get (task_definition_kwargs self) ''family''
           in case existence_check boto3_c family of
                Inl e \<Rightarrow>
                  \<lparr>state = self, calls = [DescribeTaskDefinition family], raised = Some e\<rparr>
              | Inr definition_exists \<Rightarrow>
                  (if \<not> definition_exists then
                     (case synthesize_definition rt flow self of
                        (self', Some e) \<Rightarrow>
                          \<lparr>state = self',
                           calls = [DescribeTaskDefinition family],
                           raised = Some e\<rparr>
                      | (self', None) \<Rightarrow>
                          \<lparr>state = self',
                           calls =
                             [DescribeTaskDefinition family,
                              RegisterTaskDefinition (task_definition_kwargs self')],
                           raised =
                             (case register_task_definition boto3_c
                                     (task_definition_kwargs self') of
                                Inl e \<Rightarrow> Some e
                              | Inr response \<Rightarrow> None)\<rparr>)
                   else
                     \<lparr>state = self, calls = [DescribeTaskDefinition family], raised = None\<rparr>)))"


section \<open>Execute\<close>




section \<open>Observations used in the statements\<close>

text \<open>The container entries stored in a task-definition mapping.\<close>

definition container_definitions :: "dict \<Rightarrow> pyval list" where
  "container_definitions tdk =
     (case content (dict_get tdk ''containerDefinitions'') of PList ds \<Rightarrow> ds | _ \<Rightarrow> [])"

text \<open>The entries setup works on: one empty entry when none are stored.\<close>

definition initial_definitions :: "dict \<Rightarrow> pyval list" where
  "initial_definitions tdk =
     (if truthy (dict_get tdk ''containerDefinitions'') then container_definitions tdk
      else [PDict []])"

text \<open>The field of a container entry, \<^verbatim>\<open>None\<close> when it has none.\<close>

definition field :: "pyval \<Rightarrow> string \<Rightarrow> pyval" where
  "field c k = (case content c of PDict d \<Rightarrow> dict_get d k | _ \<Rightarrow> PNone)"

text \<open>The environment list of a container entry; empty when it has none.\<close>

definition environment_of :: "pyval \<Rightarrow> pyval list" where
  "environment_of c = (case content (field c ''environment'') of PList es \<Rightarrow> es | _ \<Rightarrow> [])"

text \<open>
  Container entries that are objects of their own: a dictionary held by the list alone,
  whose environment, when truthy, is a list held by that dictionary alone. A shared
  dictionary or a shared non-empty environment list is not of this kind, and any value
  that is no dictionary, or whose environment is truthy and no list, makes the loop of
  setup raise.
\<close>

definition well_formed_container :: "pyval \<Rightarrow> bool" where
  "well_formed_container c =
     (case c of
        PDict d \<Rightarrow>
          (case dict_get d ''environment'' of PList es \<Rightarrow> True | v \<Rightarrow> \<not> truthy v)
      | _ \<Rightarrow> False)"

text \<open>
  The container definitions are absent or falsy, or a list held by the mapping alone whose
  entries are objects of their own.
\<close>

definition well_formed_definitions :: "dict \<Rightarrow> bool" where
  "well_formed_definitions tdk =
     (case dict_get tdk ''containerDefinitions'' of
        PList ds \<Rightarrow> list_all well_formed_container ds
      | v \<Rightarrow> \<not> truthy v)"

text \<open>
  What the loop body leaves of an entry that is an object of its own: its environment
  list with the variables appended, everything else as it was.
\<close>

definition with_environment :: "pyval list \<Rightarrow> pyval \<Rightarrow> pyval" where
  "with_environment env_vals c =
     (case c of
        PDict d \<Rightarrow> PDict (dict_set d ''environment'' (PList (environment_of c @ env_vals)))
      | _ \<Rightarrow> c)"

text \<open>
  Whether a call of setup on \<open>self\<close> reaches the branch \<^verbatim>\<open>if not definition_exists\<close>:
  the client is built and its describe call raises a \<open>ClientError\<close>.
\<close>

definition takes_absent_branch ::
  "('flow, 'ex) runtime \<Rightarrow> ('ex, 'cb) fargate_task_environment \<Rightarrow> bool" where
  "takes_absent_branch rt self =
     (case boto3_client rt (aws_access_key_id self) (aws_secret_access_key self)
             (aws_session_token self) (region_name self) of
        Inl e \<Rightarrow> False
      | Inr boto3_c \<Rightarrow>
          existence_check boto3_c (dict_get (task_definition_kwargs self) ''family'')
            = Inr False)"

section \<open>Concrete inputs\<close>

text \<open>
  A client whose describe call has the given outcome and whose other calls return an empty
  response; a runtime around it, with flows named by their image, the executor factory
  answering with the number of keyword arguments it got, and one credential in the process
  environment; and an instance holding the given task-definition mapping.
\<close>

definition example_client :: "py_exception + pyval \<Rightarrow> ecs_client" where
  "example_client describe_outcome =
     \<lparr>describe_task_definition = (\<lambda>family. describe_outcome),
      register_task_definition = (\<lambda>kw. Inr (PDict [])),
      run_task = (\<lambda>kw. Inr (PDict []))\<rparr>"

definition example_runtime :: "py_exception + pyval \<Rightarrow> (string, nat) runtime" where
  "example_runtime describe_outcome =
     \<lparr>getenv = (\<lambda>name. if name = ''AWS_ACCESS_KEY_ID'' then PStr ''AKIA'' else PNone),
      get_default_executor_class = (\<lambda>kw. Inr (length kw)),
      boto3_client = (\<lambda>key_id secret token region. Inr (example_client describe_outcome)),
      get_flow_image = (\<lambda>flow. Inr (PStr flow)),
      config_cloud_graphql = PStr ''https://api.prefect.io/graphql'',
      config_cloud_agent_auth_token = Inr (PStr ''''),
      config_cloud_auth_token = Inr (PStr ''token''),
      config_logging_extra_loggers = PList [],
      py_str = (\<lambda>v. ''[]''),
      prefect_context = [(''flow_run_id'', PStr ''run-1'')]\<rparr>"

definition example_environment :: "dict \<Rightarrow> (nat, unit) fargate_task_environment" where
  "example_environment tdk =
     \<lparr>launch_type = PStr ''FARGATE'',
      aws_access_key_id = PNone,
      aws_secret_access_key = PNone,
      aws_session_token = PNone,
      region_name = PNone,
      task_definition_kwargs = tdk,
      task_run_kwargs = [(''cluster'', PStr ''main'')],
      executor = 0,
      labels = PNone,
      on_start = None,
      on_exit = None,
      metadata = PNone\<rparr>"

section \<open>Dictionaries\<close>




lemma dict_get_set: "dict_get (dict_set d k v) k' = (if k' = k then v else dict_get d k')"
  by (induction d) (auto simp: dict_get_def)

lemma map_of_dict_set: "map_of (dict_set d k v) = (map_of d)(k \<mapsto> v)"
  by (induction d) auto

lemma dict_set_twice: "dict_set (dict_set d k v) k w = dict_set d k w"
  by (induction d) auto

lemma dict_set_same: "map_of d k = Some v \<Longrightarrow> dict_set d k v = d"
  by (induction d) (auto split: if_splits)

lemma keys_dict_set: "set (keys (dict_set d k v)) = insert k (set (keys d))"
  by (simp add: keys_def dom_map_of_conv_image_fst [symmetric] map_of_dict_set)

section \<open>The option partition\<close>



section \<open>Construction: executor, deprecated option, credentials\<close>

lemma init_warnings:
  "fst (init rt a) = (if arg_executor_kwargs a \<noteq> PNone then [deprecation_warning] else [])"
  by (simp add: init_def Let_def split: executor_arg.splits pyval.splits sum.splits)

lemma init_mappings:
  "snd (init rt a) = Inr self \<Longrightarrow>
   task_definition_kwargs self = fst (parse_kwargs (arg_kwargs a))
   \<and> task_run_kwargs self = snd (parse_kwargs (arg_kwargs a))"
  by (auto simp: init_def Let_def split: executor_arg.splits pyval.splits sum.splits)

lemma init_not_executor:
  "arg_executor a = Plain v \<Longrightarrow> v \<noteq> PNone \<Longrightarrow> snd (init rt a) = Inl TypeError"
  by (cases v) (simp_all add: init_def Let_def)

lemma init_default_executor:
  "arg_executor a = Plain PNone \<Longrightarrow>
   star_kwargs (py_or (arg_executor_kwargs a) (PDict [])) = Inr kw \<Longrightarrow>
   map_sum id executor (snd (init rt a)) = get_default_executor_class rt kw"
  by (simp add: init_def Let_def split: sum.splits)

text \<open>
  C6. An executor argument that is neither \<^verbatim>\<open>None\<close> nor an \<^verbatim>\<open>Executor\<close> makes construction
  raise \<open>TypeError\<close>, and no instance is built. With \<^verbatim>\<open>executor=None\<close>, construction calls
  the default executor class and succeeds with the executor that call returns.
\<close>

theorem init_executor_type_check:
  "(arg_executor a = Plain v \<and> v \<noteq> PNone \<longrightarrow> snd (init rt a) = Inl TypeError)
   \<and> (arg_executor a = Plain PNone
        \<and> star_kwargs (py_or (arg_executor_kwargs a) (PDict [])) = Inr kw
        \<and> get_default_executor_class rt kw = Inr ex \<longrightarrow>
        (\<exists>self. snd (init rt a) = Inr self \<and> executor self = ex))"
proof -
  have "\<exists>self. snd (init rt a) = Inr self \<and> executor self = ex"
    if "arg_executor a = Plain PNone"
      and "star_kwargs (py_or (arg_executor_kwargs a) (PDict [])) = Inr kw"
      and "get_default_executor_class rt kw = Inr ex"
    using init_default_executor [OF that(1,2), of rt] that(3)
    by (cases "snd (init rt a)") auto
  then show ?thesis
    using init_not_executor [of a v rt] by blast
qed

theorem init_executor_type_check_witness:
  "snd (init (example_runtime (Inr (PDict [])))
          ((default_args :: (nat, unit) init_args)\<lparr>arg_executor := Plain (PStr ''local'')\<rparr>))
     = Inl TypeError
   \<and> (\<exists>self. snd (init (example_runtime (Inr (PDict [])))
                    (default_args :: (nat, unit) init_args)) = Inr self
          \<and> executor self = 0)"
  using init_executor_type_check
    [of "(default_args :: (nat, unit) init_args)\<lparr>arg_executor := Plain (PStr ''local'')\<rparr>"
        "PStr ''local''" "example_runtime (Inr (PDict []))" "[]" 0]
    init_executor_type_check
    [of "default_args :: (nat, unit) init_args" PNone
        "example_runtime (Inr (PDict []))" "[]" 0]
  by (simp add: default_args_def example_runtime_def star_kwargs_def py_or_def)

text \<open>
  C7, as the code has it. A call that gives \<^verbatim>\<open>executor_kwargs\<close> (not \<^verbatim>\<open>None\<close>) emits the
  deprecation warning, which the same call without the option does not, and the warning
  stops nothing. The call goes on as it would without the warning: with an \<^verbatim>\<open>Executor\<close>
  it builds the very instance the call without the option builds; with \<^verbatim>\<open>executor=None\<close>
  it succeeds when the default executor class accepts the keyword arguments; with any
  other executor it raises \<open>TypeError\<close>. Every instance built has the mappings that
  \<open>parse_kwargs\<close> derives, which the option does not enter.
\<close>

theorem init_deprecated_executor_kwargs:
  assumes "arg_executor_kwargs a \<noteq> PNone"
  shows "fst (init rt a) = [deprecation_warning]
       \<and> fst (init rt (a\<lparr>arg_executor_kwargs := PNone\<rparr>)) = []
       \<and> (arg_executor a = ExecutorInstance ex \<longrightarrow>
            (\<exists>self. snd (init rt a) = Inr self)
          \<and> snd (init rt a) = snd (init rt (a\<lparr>arg_executor_kwargs := PNone\<rparr>)))
       \<and> (arg_executor a = Plain PNone
            \<and> star_kwargs (py_or (arg_executor_kwargs a) (PDict [])) = Inr kw
            \<and> get_default_executor_class rt kw = Inr ex' \<longrightarrow>
            (\<exists>self. snd (init rt a) = Inr self \<and> executor self = ex'))
       \<and> (arg_executor a = Plain v \<and> v \<noteq> PNone \<longrightarrow> snd (init rt a) = Inl TypeError)
       \<and> (snd (init rt a) = Inr self \<longrightarrow>
            task_definition_kwargs self = fst (parse_kwargs (arg_kwargs a))
          \<and> task_run_kwargs self = snd (parse_kwargs (arg_kwargs a)))
       \<and> (snd (init rt (a\<lparr>arg_executor_kwargs := PNone\<rparr>)) = Inr self' \<longrightarrow>
            task_definition_kwargs self' = fst (parse_kwargs (arg_kwargs a))
          \<and> task_run_kwargs self' = snd (parse_kwargs (arg_kwargs a)))"
proof -
  have w: "fst (init rt a) = [deprecation_warning]"
    "fst (init rt (a\<lparr>arg_executor_kwargs := PNone\<rparr>)) = []"
    using assms by (simp_all add: init_warnings)
  have conforming: "(\<exists>self. snd (init rt a) = Inr self)
      \<and> snd (init rt a) = snd (init rt (a\<lparr>arg_executor_kwargs := PNone\<rparr>))"
    if "arg_executor a = ExecutorInstance ex"
    using that by (simp add: init_def Let_def)
  have default: "\<exists>self. snd (init rt a) = Inr self \<and> executor self = ex'"
    if "arg_executor a = Plain PNone"
      and "star_kwargs (py_or (arg_executor_kwargs a) (PDict [])) = Inr kw"
      and "get_default_executor_class rt kw = Inr ex'"
    using init_default_executor [OF that(1,2), of rt] that(3)
    by (cases "snd (init rt a)") auto
  have m: "task_definition_kwargs self = fst (parse_kwargs (arg_kwargs a))
      \<and> task_run_kwargs self = snd (parse_kwargs (arg_kwargs a))"
    if "snd (init rt a) = Inr self"
    using init_mappings [OF that] .
  have m': "task_definition_kwargs self' = fst (parse_kwargs (arg_kwargs a))
      \<and> task_run_kwargs self' = snd (parse_kwargs (arg_kwargs a))"
    if "snd (init rt (a\<lparr>arg_executor_kwargs := PNone\<rparr>)) = Inr self'"
    using init_mappings [OF that] by simp
  show ?thesis
    using w conforming default m m' init_not_executor [of a v rt] by blast
qed

theorem init_deprecated_executor_kwargs_witness:
  "init (example_runtime (Inr (PDict [])))
     ((default_args :: (nat, unit) init_args)
        \<lparr>arg_executor := ExecutorInstance 7,
         arg_executor_kwargs := PDict [(''address'', PStr ''tcp://scheduler'')],
         arg_kwargs := [(''family'', PStr ''flow''), (''cluster'', PStr ''main'')]\<rparr>)
   = ([deprecation_warning],
      Inr \<lparr>launch_type = PStr ''FARGATE'',
           aws_access_key_id = PStr ''AKIA'',
           aws_secret_access_key = PNone,
           aws_session_token = PNone,
           region_name = PNone,
           task_definition_kwargs = [(''family'', PStr ''flow'')],
           task_run_kwargs = [(''cluster'', PStr ''main'')],
           executor = 7,
           labels = PNone,
           on_start = None,
           on_exit = None,
           metadata = PNone\<rparr>)"
  using init_deprecated_executor_kwargs
    [of "(default_args :: (nat, unit) init_args)
        \<lparr>arg_executor := ExecutorInstance 7,
         arg_executor_kwargs := PDict [(''address'', PStr ''tcp://scheduler'')],
         arg_kwargs := [(''family'', PStr ''flow''), (''cluster'', PStr ''main'')]\<rparr>"
        "example_runtime (Inr (PDict []))" 7]
  by (simp add: init_def Let_def default_args_def example_runtime_def py_or_def
        parse_kwargs_def definition_kwarg_list_def run_kwarg_list_def)

text \<open>
  The claim as stated fails: a call that gives the deprecated option together with an
  executor that is no \<^verbatim>\<open>Executor\<close> warns and then raises; no instance is built.
\<close>

theorem init_deprecated_option_counterexample:
  "init (example_runtime (Inr (PDict [])))
     ((default_args :: (nat, unit) init_args)
        \<lparr>arg_executor := Plain (PStr ''local''), arg_executor_kwargs := PDict []\<rparr>)
   = ([deprecation_warning], Inl TypeError)"
  by (simp add: init_def Let_def default_args_def)

text \<open>
  C8. Each of the four credential and region fields is the argument when the argument is
  truthy and the environment variable's value otherwise: a falsy argument, the empty
  string as much as \<^verbatim>\<open>None\<close>, is replaced by the lookup (itself \<^verbatim>\<open>None\<close> for an unset
  variable).
\<close>

theorem init_credentials_fall_back_on_falsy:
  assumes "snd (init rt a) = Inr self"
  shows "aws_access_key_id self =
           (if truthy (arg_aws_access_key_id a) then arg_aws_access_key_id a
            else getenv rt ''AWS_ACCESS_KEY_ID'')
       \<and> aws_secret_access_key self =
           (if truthy (arg_aws_secret_access_key a) then arg_aws_secret_access_key a
            else getenv rt ''AWS_SECRET_ACCESS_KEY'')
       \<and> aws_session_token self =
           (if truthy (arg_aws_session_token a) then arg_aws_session_token a
            else getenv rt ''AWS_SESSION_TOKEN'')
       \<and> region_name self =
           (if truthy (arg_region_name a) then arg_region_name a
            else getenv rt ''REGION_NAME'')"
  using assms
  by (auto simp: init_def Let_def py_or_def
        split: executor_arg.splits pyval.splits sum.splits)

theorem init_credentials_fall_back_on_falsy_witness:
  "snd (init (example_runtime (Inr (PDict [])))
          ((default_args :: (nat, unit) init_args)
             \<lparr>arg_aws_access_key_id := PStr '''', arg_region_name := PStr ''eu-west-1''\<rparr>))
   = Inr \<lparr>launch_type = PStr ''FARGATE'',
          aws_access_key_id = PStr ''AKIA'',
          aws_secret_access_key = PNone,
          aws_session_token = PNone,
          region_name = PStr ''eu-west-1'',
          task_definition_kwargs = [],
          task_run_kwargs = [],
          executor = 0,
          labels = PNone,
          on_start = None,
          on_exit = None,
          metadata = PNone\<rparr>"
proof -
  let ?a = "(default_args :: (nat, unit) init_args)
      \<lparr>arg_aws_access_key_id := PStr '''', arg_region_name := PStr ''eu-west-1''\<rparr>"
  have built: ?thesis
    by (simp add: init_def Let_def default_args_def example_runtime_def py_or_def
          star_kwargs_def parse_kwargs_def)
  show ?thesis
    using init_credentials_fall_back_on_falsy [OF built] built by simp
qed

text \<open>
  C10. With \<^verbatim>\<open>executor=None\<close> the deprecated option is passed on: the default executor
  class is called with the keyword arguments of \<^verbatim>\<open>executor_kwargs\<close>, or with none when the
  option is \<^verbatim>\<open>None\<close>, and what that call returns or raises is what construction stores as
  the executor or raises.
\<close>

theorem init_forwards_executor_kwargs:
  assumes "arg_executor a = Plain PNone"
  shows "(arg_executor_kwargs a = PDict kw \<longrightarrow>
            map_sum id executor (snd (init rt a)) = get_default_executor_class rt kw
          \<and> fst (init rt a) = [deprecation_warning])
       \<and> (arg_executor_kwargs a = PNone \<longrightarrow>
            map_sum id executor (snd (init rt a)) = get_default_executor_class rt []
          \<and> fst (init rt a) = [])"
proof -
  have "star_kwargs (py_or (arg_executor_kwargs a) (PDict [])) = Inr kw"
    if "arg_executor_kwargs a = PDict kw"
    using that by (simp add: star_kwargs_def py_or_def)
  moreover have "star_kwargs (py_or (arg_executor_kwargs a) (PDict [])) = Inr []"
    if "arg_executor_kwargs a = PNone"
    using that by (simp add: star_kwargs_def py_or_def)
  ultimately show ?thesis
    using init_default_executor [OF assms, of _ rt] by (simp add: init_warnings)
qed

theorem init_forwards_executor_kwargs_witness:
  "map_sum id executor
     (snd (init (example_runtime (Inr (PDict [])))
        ((default_args :: (nat, unit) init_args)
           \<lparr>arg_executor_kwargs := PDict [(''address'', PStr ''tcp://scheduler'')]\<rparr>)))
   = Inr 1
   \<and> map_sum id executor
     (snd (init (example_runtime (Inr (PDict [])))
        (default_args :: (nat, unit) init_args)))
   = Inr 0"
  using init_forwards_executor_kwargs
    [of "(default_args :: (nat, unit) init_args)
           \<lparr>arg_executor_kwargs := PDict [(''address'', PStr ''tcp://scheduler'')]\<rparr>"
        "[(''address'', PStr ''tcp://scheduler'')]" "example_runtime (Inr (PDict []))"]
    init_forwards_executor_kwargs
    [of "default_args :: (nat, unit) init_args" "[]" "example_runtime (Inr (PDict []))"]
  by (simp add: default_args_def example_runtime_def)

section \<open>The steps of setup on well-formed container definitions\<close>

lemma content_plain [simp]:
  "content (PList xs) = PList xs" "content (PDict d) = PDict d"
  by simp_all

lemma environment_of_PDict:
  "environment_of (PDict d) =
     (case content (dict_get d ''environment'') of PList es \<Rightarrow> es | _ \<Rightarrow> [])"
  by (simp add: environment_of_def field_def)

lemma falsy_environment:
  "\<not> truthy v \<Longrightarrow> (case content v of PList es \<Rightarrow> es | _ \<Rightarrow> []) = []"
  by (induction v rule: content.induct) auto

lemma with_environment_wf:
  assumes "well_formed_container c"
  shows "well_formed_container (with_environment ev c)
       \<and> environment_of (with_environment ev c) = environment_of c @ ev
       \<and> (k \<noteq> ''environment'' \<longrightarrow> field (with_environment ev c) k = field c k)"
  using assms
  by (auto simp: well_formed_container_def with_environment_def environment_of_def field_def
        dict_get_set split: pyval.splits)

lemma current_definitions_store:
  "current_definitions (store_kwarg ''containerDefinitions'' (PList ds) self) = ds"
  by (simp add: current_definitions_def store_kwarg_def dict_get_set)

lemma store_kwarg_twice:
  "store_kwarg k w (store_kwarg k v self) = store_kwarg k w self"
  by (simp add: store_kwarg_def dict_set_twice)

lemma dict_get_store:
  "dict_get (task_definition_kwargs (store_kwarg k v self)) k' =
     (if k' = k then v else dict_get (task_definition_kwargs self) k')"
  by (simp add: store_kwarg_def dict_get_set)

lemma map_of_store:
  "map_of (task_definition_kwargs (store_kwarg k v self)) =
     (map_of (task_definition_kwargs self))(k \<mapsto> v)"
  by (simp add: store_kwarg_def map_of_dict_set)

lemma set_definition_plain:
  assumes "i < length ds" and "ds ! i = PDict old"
  shows "set_definition i d (store_kwarg ''containerDefinitions'' (PList ds) self) =
           store_kwarg ''containerDefinitions'' (PList (ds[i := PDict d])) self"
  using assms
  by (simp add: set_definition_def current_definitions_store dict_get_store
        store_kwarg_twice)

lemma set_definition_first:
  "set_definition 0 d (store_kwarg ''containerDefinitions'' (PList (PDict old # rest)) self) =
     store_kwarg ''containerDefinitions'' (PList (PDict d # rest)) self"
  using set_definition_plain [of 0 "PDict old # rest" old d self] by simp

lemma extend_environment_wf:
  assumes i: "i < length ds" and wf: "well_formed_container (ds ! i)"
  shows "extend_environment ev i (store_kwarg ''containerDefinitions'' (PList ds) self) =
           (store_kwarg ''containerDefinitions''
              (PList (ds[i := with_environment ev (ds ! i)])) self, None)"
proof -
  obtain d where d: "ds ! i = PDict d"
    using wf by (cases "ds ! i") (auto simp: well_formed_container_def)
  show ?thesis
  proof (cases "truthy (dict_get d ''environment'')")
    case True
    then obtain es where es: "dict_get d ''environment'' = PList es"
      using wf d by (cases "dict_get d ''environment''")
        (auto simp: well_formed_container_def)
    show ?thesis
      using i d True es
      by (simp add: extend_environment_def current_definitions_store Let_def
            set_definition_plain [where old = d] with_environment_def environment_of_PDict)
  next
    case False
    have none: "environment_of (PDict d) = []"
      using False by (simp add: environment_of_PDict falsy_environment)
    have "extend_environment ev i (store_kwarg ''containerDefinitions'' (PList ds) self) =
        (set_definition i
           (dict_set (dict_set d ''environment'' (PList [])) ''environment'' (PList ([] @ ev)))
           (set_definition i (dict_set d ''environment'' (PList []))
              (store_kwarg ''containerDefinitions'' (PList ds) self)), None)"
      using i d False
      by (simp add: extend_environment_def current_definitions_store Let_def dict_get_set)
    also have "\<dots> = (store_kwarg ''containerDefinitions''
        (PList (ds[i := PDict (dict_set d ''environment'' (PList ev))])) self, None)"
      using i d
      by (simp add: set_definition_plain [where old = d]
            set_definition_plain [where old = "dict_set d ''environment'' (PList [])"]
            dict_set_twice)
    finally show ?thesis
      using d none by (simp add: with_environment_def)
  qed
qed

lemma set_environments_wf:
  assumes "list_all well_formed_container ds"
  shows "set_environments ev (length pre) (length ds)
           (store_kwarg ''containerDefinitions'' (PList (pre @ ds)) self) =
         (store_kwarg ''containerDefinitions''
            (PList (pre @ map (with_environment ev) ds)) self, None)"
  using assms
proof (induction ds arbitrary: pre)
  case Nil
  then show ?case by simp
next
  case (Cons c ds)
  have step: "extend_environment ev (length pre)
        (store_kwarg ''containerDefinitions'' (PList (pre @ c # ds)) self) =
      (store_kwarg ''containerDefinitions''
         (PList ((pre @ [with_environment ev c]) @ ds)) self, None)"
    using extend_environment_wf [of "length pre" "pre @ c # ds" ev self] Cons.prems
    by simp
  have "set_environments ev (length (pre @ [with_environment ev c])) (length ds)
        (store_kwarg ''containerDefinitions''
           (PList ((pre @ [with_environment ev c]) @ ds)) self) =
      (store_kwarg ''containerDefinitions''
         (PList ((pre @ [with_environment ev c]) @ map (with_environment ev) ds)) self, None)"
    using Cons.prems by (intro Cons.IH) simp
  then show ?case
    using step by (simp add: current_definitions_store)
qed

lemma first_container_set_subscript:
  "first_container_set subscript_definitions k v
     (store_kwarg ''containerDefinitions'' (PList (PDict c # rest)) self) =
   (store_kwarg ''containerDefinitions'' (PList (PDict (dict_set c k v) # rest)) self, None)"
  by (simp add: first_container_set_def subscript_definitions_def first_item_def
        map_of_store set_definition_first)

lemma first_container_set_get:
  "first_container_set get_definitions k v
     (store_kwarg ''containerDefinitions'' (PList (PDict c # rest)) self) =
   (store_kwarg ''containerDefinitions'' (PList (PDict (dict_set c k v) # rest)) self, None)"
  by (simp add: first_container_set_def get_definitions_def first_item_def
        dict_get_store set_definition_first)

lemma default_first_container_first:
  "default_first_container k v
     (store_kwarg ''containerDefinitions'' (PList (PDict c # rest)) self) =
   (store_kwarg ''containerDefinitions''
      (PList (PDict (if truthy (dict_get c k) then c else dict_set c k v) # rest)) self, None)"
proof -
  have "first_container_get subscript_definitions k
      (store_kwarg ''containerDefinitions'' (PList (PDict c # rest)) self) = Inr (dict_get c k)"
    by (simp add: first_container_get_def subscript_definitions_def first_item_def
          map_of_store)
  then show ?thesis
    by (simp add: default_first_container_def first_container_set_subscript)
qed

lemma create_container_definitions_wf:
  assumes "well_formed_definitions (task_definition_kwargs self)"
  shows "create_container_definitions self =
           (store_kwarg ''containerDefinitions''
              (PList (initial_definitions (task_definition_kwargs self))) self, None)
       \<and> initial_definitions (task_definition_kwargs self) \<noteq> []
       \<and> list_all well_formed_container (initial_definitions (task_definition_kwargs self))"
proof (cases "truthy (dict_get (task_definition_kwargs self) ''containerDefinitions'')")
  case True
  then obtain ds where
    ds: "dict_get (task_definition_kwargs self) ''containerDefinitions'' = PList ds"
    using assms
    by (cases "dict_get (task_definition_kwargs self) ''containerDefinitions''")
      (auto simp: well_formed_definitions_def)
  then have m: "map_of (task_definition_kwargs self) ''containerDefinitions'' = Some (PList ds)"
    by (auto simp: dict_get_def split: option.splits)
  show ?thesis
    using True ds assms m
    by (simp add: create_container_definitions_def initial_definitions_def
          container_definitions_def well_formed_definitions_def dict_set_same store_kwarg_def)
next
  case False
  have "dict_get [] ''environment'' = PNone"
    by (simp add: dict_get_def)
  with False show ?thesis
    by (simp add: create_container_definitions_def initial_definitions_def Let_def
          store_kwarg_def dict_get_set dict_set_twice well_formed_container_def)
qed

lemma set_environment_variables_wf:
  assumes "list_all well_formed_container ds"
  shows "set_environment_variables ev
           (store_kwarg ''containerDefinitions'' (PList ds) self) =
         (store_kwarg ''containerDefinitions'' (PList (map (with_environment ev) ds)) self,
          None)"
  using set_environments_wf [OF assms, of ev "[]" self]
  by (simp add: set_environment_variables_def map_of_store)

lemma well_formed_container_set:
  "well_formed_container (PDict c) \<Longrightarrow> k \<noteq> ''environment'' \<Longrightarrow>
   well_formed_container (PDict (dict_set c k v))"
  by (simp add: well_formed_container_def dict_get_set)

lemma environment_of_set:
  "k \<noteq> ''environment'' \<Longrightarrow> environment_of (PDict (dict_set c k v)) = environment_of (PDict c)"
  by (simp add: environment_of_PDict dict_get_set)

lemma synthesize_definition_wf:
  assumes wf: "well_formed_definitions (task_definition_kwargs self)"
  shows "\<exists>first rest.
           fst (synthesize_definition rt flow self) =
             store_kwarg ''containerDefinitions'' (PList (PDict first # rest)) self
         \<and> map environment_of (PDict first # rest) =
             map (\<lambda>c. environment_of c @ env_values rt)
               (initial_definitions (task_definition_kwargs self))
         \<and> list_all well_formed_container (PDict first # rest)
         \<and> (case get_flow_image rt flow of
              Inl e \<Rightarrow> snd (synthesize_definition rt flow self) = Some e
            | Inr img \<Rightarrow>
                snd (synthesize_definition rt flow self) = None
              \<and> dict_get first ''name'' = PStr ''flow-container''
              \<and> dict_get first ''image'' = img
              \<and> dict_get first ''command'' = flow_command)"
proof -
  let ?ev = "env_values rt"
  let ?ds0 = "initial_definitions (task_definition_kwargs self)"
  let ?ds1 = "map (with_environment ?ev) ?ds0"
  note c = create_container_definitions_wf [OF wf]
  from c have wf0: "list_all well_formed_container ?ds0" and ne: "?ds0 \<noteq> []"
    by simp_all
  from ne obtain c1 rest where ds1: "?ds1 = c1 # rest"
    by (cases ?ds1) auto
  have wfall: "list_all well_formed_container ?ds1"
    using wf0 with_environment_wf [of _ ?ev "''x''"] by (simp add: list_all_iff)
  with ds1 have "well_formed_container c1" by simp
  then obtain d1 where c1: "c1 = PDict d1"
    by (cases c1) (auto simp: well_formed_container_def)
  have wf1: "list_all well_formed_container (PDict d1 # rest)"
    using wfall ds1 c1 by simp
  have "map environment_of ?ds1 = map (\<lambda>c. environment_of c @ ?ev) ?ds0"
    using wf0 with_environment_wf [of _ ?ev "''x''"] by (simp add: list_all_iff)
  then have env1: "map environment_of (PDict d1 # rest) =
      map (\<lambda>c. environment_of c @ ?ev) ?ds0"
    using ds1 c1 by simp
  have s2: "set_environment_variables ?ev
        (store_kwarg ''containerDefinitions'' (PList ?ds0) self) =
      (store_kwarg ''containerDefinitions'' (PList (PDict d1 # rest)) self, None)"
    using set_environment_variables_wf [OF wf0, of ?ev self] ds1 c1 by simp
  show ?thesis
  proof (cases "get_flow_image rt flow")
    case (Inl e)
    let ?n1 = "if truthy (dict_get d1 ''name'') then d1 else dict_set d1 ''name'' (PStr '''')"
    let ?n2 = "dict_set ?n1 ''name'' (PStr ''flow-container'')"
    let ?n3 = "if truthy (dict_get ?n2 ''image'') then ?n2 else dict_set ?n2 ''image'' (PStr '''')"
    have r: "synthesize_definition rt flow self =
        (store_kwarg ''containerDefinitions'' (PList (PDict ?n3 # rest)) self, Some e)"
      using c s2 Inl
      by (simp add: synthesize_definition_def default_first_container_first
            first_container_set_get set_image_def)
    have "map environment_of (PDict ?n3 # rest) = map environment_of (PDict d1 # rest)"
      by (simp add: environment_of_set)
    moreover have "list_all well_formed_container (PDict ?n3 # rest)"
      using wf1 by (simp add: well_formed_container_set)
    ultimately show ?thesis
      using r env1 Inl by (intro exI [of _ ?n3] exI [of _ rest]) simp
  next
    case (Inr img)
    let ?n1 = "if truthy (dict_get d1 ''name'') then d1 else dict_set d1 ''name'' (PStr '''')"
    let ?n2 = "dict_set ?n1 ''name'' (PStr ''flow-container'')"
    let ?n3 = "if truthy (dict_get ?n2 ''image'') then ?n2 else dict_set ?n2 ''image'' (PStr '''')"
    let ?n4 = "dict_set ?n3 ''image'' img"
    let ?n5 = "if truthy (dict_get ?n4 ''command'') then ?n4 else dict_set ?n4 ''command'' (PList [])"
    let ?n6 = "dict_set ?n5 ''command'' flow_command"
    have r: "synthesize_definition rt flow self =
        (store_kwarg ''containerDefinitions'' (PList (PDict ?n6 # rest)) self, None)"
      using c s2 Inr
      by (simp add: synthesize_definition_def default_first_container_first
            first_container_set_get set_image_def)
    have "map environment_of (PDict ?n6 # rest) = map environment_of (PDict d1 # rest)"
      by (simp add: environment_of_set)
    moreover have "list_all well_formed_container (PDict ?n6 # rest)"
      using wf1 by (simp add: well_formed_container_set)
    moreover have "dict_get ?n6 ''name'' = PStr ''flow-container''"
      and "dict_get ?n6 ''image'' = img" and "dict_get ?n6 ''command'' = flow_command"
      by (simp_all add: dict_get_set)
    ultimately show ?thesis
      using r env1 Inr by (intro exI [of _ ?n6] exI [of _ rest]) simp
  qed
qed

section \<open>Setup: the existence check\<close>

lemma setup_env_absent:
  assumes "takes_absent_branch rt self"
  shows "state (setup_env rt self flow) = fst (synthesize_definition rt flow self)"
  using assms
  by (auto simp: takes_absent_branch_def setup_env_def Let_def
        split: sum.splits prod.splits option.splits)

text \<open>
  C4. When the describe call returns (a task definition of the configured family exists),
  setup makes no other call, raises nothing and leaves the instance, with both stored
  mappings, as it was.
\<close>

theorem setup_skips_existing_definition:
  assumes "boto3_client rt (aws_access_key_id self) (aws_secret_access_key self)
             (aws_session_token self) (region_name self) = Inr boto3_c"
      and "describe_task_definition boto3_c
             (dict_get (task_definition_kwargs self) ''family'') = Inr response"
  shows "setup_env rt self flow =
           \<lparr>state = self,
            calls = [DescribeTaskDefinition (dict_get (task_definition_kwargs self) ''family'')],
            raised = None\<rparr>"
  using assms by (simp add: setup_env_def existence_check_def)

theorem setup_skips_existing_definition_witness:
  "setup_env (example_runtime (Inr (PDict [])))
     (example_environment [(''family'', PStr ''flow'')]) ''image:1'' =
   \<lparr>state = example_environment [(''family'', PStr ''flow'')],
    calls = [DescribeTaskDefinition (PStr ''flow'')],
    raised = None\<rparr>"
  using setup_skips_existing_definition
    [of "example_runtime (Inr (PDict []))" "example_environment [(''family'', PStr ''flow'')]"
        "example_client (Inr (PDict []))" "PDict []" "''image:1''"]
  by (simp add: example_runtime_def example_environment_def example_client_def dict_get_def)

lemma setup_env_synthesized:
  assumes client: "boto3_client rt (aws_access_key_id self) (aws_secret_access_key self)
             (aws_session_token self) (region_name self) = Inr boto3_c"
      and absent: "describe_task_definition boto3_c
             (dict_get (task_definition_kwargs self) ''family'') = Inl (ClientError code)"
      and wf: "well_formed_definitions (task_definition_kwargs self)"
      and resolved: "get_flow_image rt flow = Inr img"
  shows "\<exists>first rest.
           setup_env rt self flow =
             \<lparr>state = self\<lparr>task_definition_kwargs :=
                dict_set (task_definition_kwargs self) ''containerDefinitions''
                  (PList (PDict first # rest))\<rparr>,
              calls =
                [DescribeTaskDefinition (dict_get (task_definition_kwargs self) ''family''),
                 RegisterTaskDefinition
                   (dict_set (task_definition_kwargs self) ''containerDefinitions''
                      (PList (PDict first # rest)))],
              raised =
                (case register_task_definition boto3_c
                        (dict_set (task_definition_kwargs self) ''containerDefinitions''
                           (PList (PDict first # rest))) of
                   Inl e \<Rightarrow> Some e
                 | Inr response \<Rightarrow> None)\<rparr>
         \<and> map environment_of (PDict first # rest) =
             map (\<lambda>c. environment_of c @ env_values rt)
               (initial_definitions (task_definition_kwargs self))
         \<and> dict_get first ''name'' = PStr ''flow-container''
         \<and> dict_get first ''image'' = img
         \<and> dict_get first ''command'' = flow_command"
proof -
  obtain first rest where
    tdk: "fst (synthesize_definition rt flow self) =
            store_kwarg ''containerDefinitions'' (PList (PDict first # rest)) self"
    and env: "map environment_of (PDict first # rest) =
            map (\<lambda>c. environment_of c @ env_values rt)
              (initial_definitions (task_definition_kwargs self))"
    and ok: "snd (synthesize_definition rt flow self) = None"
    and fields: "dict_get first ''name'' = PStr ''flow-container''"
      "dict_get first ''image'' = img" "dict_get first ''command'' = flow_command"
    using synthesize_definition_wf [OF wf, of rt flow] resolved by auto
  have "synthesize_definition rt flow self =
      (self\<lparr>task_definition_kwargs :=
         dict_set (task_definition_kwargs self) ''containerDefinitions''
           (PList (PDict first # rest))\<rparr>, None)"
    using tdk ok by (simp add: prod_eq_iff store_kwarg_def)
  then have "setup_env rt self flow =
      \<lparr>state = self\<lparr>task_definition_kwargs :=
         dict_set (task_definition_kwargs self) ''containerDefinitions''
           (PList (PDict first # rest))\<rparr>,
       calls =
         [DescribeTaskDefinition (dict_get (task_definition_kwargs self) ''family''),
          RegisterTaskDefinition
            (dict_set (task_definition_kwargs self) ''containerDefinitions''
               (PList (PDict first # rest)))],
       raised =
         (case register_task_definition boto3_c
                 (dict_set (task_definition_kwargs self) ''containerDefinitions''
                    (PList (PDict first # rest))) of
            Inl e \<Rightarrow> Some e
          | Inr response \<Rightarrow> None)\<rparr>"
    using client absent by (simp add: setup_env_def existence_check_def)
  with env fields show ?thesis by blast
qed

text \<open>
  C2, as the code has it. An exception of the existence check that is a \<open>ClientError\<close>,
  whatever its error code, is caught: setup goes on to synthesize the container
  definition, and on well-formed container definitions with a resolved image it issues the
  registration call and raises only what that call raises. Any other exception leaves
  setup as it is, after the describe call alone and with the instance unchanged.
\<close>

theorem setup_existence_check_errors:
  assumes client: "boto3_client rt (aws_access_key_id self) (aws_secret_access_key self)
             (aws_session_token self) (region_name self) = Inr boto3_c"
      and failed: "describe_task_definition boto3_c
             (dict_get (task_definition_kwargs self) ''family'') = Inl e"
  shows "(case e of
            ClientError code \<Rightarrow>
              state (setup_env rt self flow) = fst (synthesize_definition rt flow self)
            \<and> (well_formed_definitions (task_definition_kwargs self)
                 \<and> get_flow_image rt flow = Inr img \<longrightarrow>
                 calls (setup_env rt self flow) =
                   [DescribeTaskDefinition (dict_get (task_definition_kwargs self) ''family''),
                    RegisterTaskDefinition
                      (task_definition_kwargs (state (setup_env rt self flow)))]
               \<and> raised (setup_env rt self flow) =
                   (case register_task_definition boto3_c
                           (task_definition_kwargs (state (setup_env rt self flow))) of
                      Inl e' \<Rightarrow> Some e'
                    | Inr response \<Rightarrow> None))
          | _ \<Rightarrow>
              setup_env rt self flow =
                \<lparr>state = self,
                 calls =
                   [DescribeTaskDefinition (dict_get (task_definition_kwargs self) ''family'')],
                 raised = Some e\<rparr>)"
proof (cases e)
  case (ClientError code)
  have branch: "takes_absent_branch rt self"
    using client failed ClientError
    by (simp add: takes_absent_branch_def existence_check_def)
  have "calls (setup_env rt self flow) =
          [DescribeTaskDefinition (dict_get (task_definition_kwargs self) ''family''),
           RegisterTaskDefinition (task_definition_kwargs (state (setup_env rt self flow)))]
      \<and> raised (setup_env rt self flow) =
          (case register_task_definition boto3_c
                  (task_definition_kwargs (state (setup_env rt self flow))) of
             Inl e' \<Rightarrow> Some e'
           | Inr response \<Rightarrow> None)"
    if "well_formed_definitions (task_definition_kwargs self)"
      and "get_flow_image rt flow = Inr img"
    using setup_env_synthesized [OF client failed [unfolded ClientError] that] by auto
  then show ?thesis
    using ClientError setup_env_absent [OF branch, of flow] by simp
qed (use client failed in \<open>simp_all add: setup_env_def existence_check_def\<close>)

theorem setup_existence_check_errors_witness:
  "setup_env (example_runtime (Inl (OtherException ''EndpointConnectionError'')))
     (example_environment [(''family'', PStr ''flow'')]) ''image:1'' =
   \<lparr>state = example_environment [(''family'', PStr ''flow'')],
    calls = [DescribeTaskDefinition (PStr ''flow'')],
    raised = Some (OtherException ''EndpointConnectionError'')\<rparr>
   \<and> calls (setup_env (example_runtime (Inl (ClientError ''ClientException'')))
            (example_environment [(''family'', PStr ''flow'')]) ''image:1'') =
       [DescribeTaskDefinition (PStr ''flow''),
        RegisterTaskDefinition
          (task_definition_kwargs
             (state (setup_env (example_runtime (Inl (ClientError ''ClientException'')))
                (example_environment [(''family'', PStr ''flow'')]) ''image:1'')))]
   \<and> raised (setup_env (example_runtime (Inl (ClientError ''ClientException'')))
            (example_environment [(''family'', PStr ''flow'')]) ''image:1'') = None"
  using setup_existence_check_errors
    [of "example_runtime (Inl (OtherException ''EndpointConnectionError''))"
        "example_environment [(''family'', PStr ''flow'')]"
        "example_client (Inl (OtherException ''EndpointConnectionError''))"
        "OtherException ''EndpointConnectionError''" "''image:1''" "PNone"]
    setup_existence_check_errors
    [of "example_runtime (Inl (ClientError ''ClientException''))"
        "example_environment [(''family'', PStr ''flow'')]"
        "example_client (Inl (ClientError ''ClientException''))"
        "ClientError ''ClientException''" "''image:1''" "PStr ''image:1''"]
  by (simp add: example_runtime_def example_environment_def example_client_def dict_get_def
        well_formed_definitions_def)

text \<open>
  The claim as stated fails: an access-denied error response is no "not found" error, yet
  setup does not let it through; it registers the definition and returns normally.
\<close>

theorem setup_access_denied_counterexample:
  "calls (setup_env (example_runtime (Inl (ClientError ''AccessDeniedException'')))
            (example_environment [(''family'', PStr ''flow'')]) ''image:1'') =
     [DescribeTaskDefinition (PStr ''flow''),
      RegisterTaskDefinition
        [(''family'', PStr ''flow''),
         (''containerDefinitions'',
          PList [PDict [(''environment'',
                         PList (env_values
                           (example_runtime (Inl (ClientError ''AccessDeniedException''))))),
                        (''name'', PStr ''flow-container''),
                        (''image'', PStr ''image:1''),
                        (''command'', flow_command)]])]]
   \<and> raised (setup_env (example_runtime (Inl (ClientError ''AccessDeniedException'')))
            (example_environment [(''family'', PStr ''flow'')]) ''image:1'') = None"
  by (simp add: setup_env_def existence_check_def synthesize_definition_def
        create_container_definitions_def set_environment_variables_def
        extend_environment_def default_first_container_def first_container_get_def
        first_container_set_def subscript_definitions_def get_definitions_def
        first_item_def set_image_def dict_get_def set_definition_def
        current_definitions_def store_kwarg_def
        example_runtime_def example_environment_def example_client_def)

section \<open>Setup: the synthesized container definition\<close>

lemma container_definitions_set:
  "container_definitions (dict_set tdk ''containerDefinitions'' (PList ds)) = ds"
  by (simp add: container_definitions_def dict_get_set)

text \<open>
  C3, as the code has it. The configured container entries are objects of their own
  (\<open>well_formed_definitions\<close>: a list of dictionaries, none held in two places, each with an
  environment list of its own or none). When the existence check reports no task definition
  and the image resolves, setup keeps as many container entries as were configured (one,
  empty before setup fills it, when none were), appends the six standard environment
  variables to the environment list of every entry, gives the first entry the name
  \<^verbatim>\<open>flow-container\<close>, the resolved image and the fixed command, changes nothing else of
  the instance, and then makes exactly one registration call, with the mapping so changed;
  it raises what that call raises.
\<close>

theorem setup_registers_synthesized_definition:
  assumes client: "boto3_client rt (aws_access_key_id self) (aws_secret_access_key self)
             (aws_session_token self) (region_name self) = Inr boto3_c"
      and absent: "describe_task_definition boto3_c
             (dict_get (task_definition_kwargs self) ''family'') = Inl (ClientError code)"
      and wf: "well_formed_definitions (task_definition_kwargs self)"
      and resolved: "get_flow_image rt flow = Inr img"
  shows "state (setup_env rt self flow) =
           self\<lparr>task_definition_kwargs :=
             dict_set (task_definition_kwargs self) ''containerDefinitions''
               (PList (container_definitions
                  (task_definition_kwargs (state (setup_env rt self flow)))))\<rparr>
       \<and> length (container_definitions (task_definition_kwargs (state (setup_env rt self flow))))
           = length (initial_definitions (task_definition_kwargs self))
       \<and> (\<not> truthy (dict_get (task_definition_kwargs self) ''containerDefinitions'') \<longrightarrow>
            length (container_definitions
              (task_definition_kwargs (state (setup_env rt self flow)))) = 1)
       \<and> container_definitions (task_definition_kwargs (state (setup_env rt self flow))) \<noteq> []
       \<and> field (hd (container_definitions
              (task_definition_kwargs (state (setup_env rt self flow))))) ''name''
           = PStr ''flow-container''
       \<and> field (hd (container_definitions
              (task_definition_kwargs (state (setup_env rt self flow))))) ''image'' = img
       \<and> field (hd (container_definitions
              (task_definition_kwargs (state (setup_env rt self flow))))) ''command''
           = PList [PStr ''/bin/sh'', PStr ''-c'',
                    PStr (''python -c 'import prefect; prefect.environments.FargateTaskEnvironment().run_flow()''
                          @ [CHR 0x27])]
       \<and> map environment_of
             (container_definitions (task_definition_kwargs (state (setup_env rt self flow))))
           = map (\<lambda>c. environment_of c @
                  [PDict [(''name'', PStr ''PREFECT__CLOUD__GRAPHQL''),
                          (''value'', config_cloud_graphql rt)],
                    PDict [(''name'', PStr ''PREFECT__CLOUD__USE_LOCAL_SECRETS''),
                          (''value'', PStr ''false'')],
                    PDict [(''name'', PStr ''PREFECT__ENGINE__FLOW_RUNNER__DEFAULT_CLASS''),
                          (''value'', PStr ''prefect.engine.cloud.CloudFlowRunner'')],
                    PDict [(''name'', PStr ''PREFECT__ENGINE__TASK_RUNNER__DEFAULT_CLASS''),
                          (''value'', PStr ''prefect.engine.cloud.CloudTaskRunner'')],
                    PDict [(''name'', PStr ''PREFECT__LOGGING__LOG_TO_CLOUD''),
                          (''value'', PStr ''true'')],
                    PDict [(''name'', PStr ''PREFECT__LOGGING__EXTRA_LOGGERS''),
                          (''value'', PStr (py_str rt (config_logging_extra_loggers rt)))]])
               (initial_definitions (task_definition_kwargs self))
       \<and> calls (setup_env rt self flow) =
           [DescribeTaskDefinition (dict_get (task_definition_kwargs self) ''family''),
            RegisterTaskDefinition (task_definition_kwargs (state (setup_env rt self flow)))]
       \<and> raised (setup_env rt self flow) =
           (case register_task_definition boto3_c
                   (task_definition_kwargs (state (setup_env rt self flow))) of
              Inl e \<Rightarrow> Some e
            | Inr response \<Rightarrow> None)"
proof -
  obtain first rest where
    r: "setup_env rt self flow =
          \<lparr>state = self\<lparr>task_definition_kwargs :=
             dict_set (task_definition_kwargs self) ''containerDefinitions''
               (PList (PDict first # rest))\<rparr>,
           calls =
             [DescribeTaskDefinition (dict_get (task_definition_kwargs self) ''family''),
              RegisterTaskDefinition
                (dict_set (task_definition_kwargs self) ''containerDefinitions''
                   (PList (PDict first # rest)))],
           raised =
             (case register_task_definition boto3_c
                     (dict_set (task_definition_kwargs self) ''containerDefinitions''
                        (PList (PDict first # rest))) of
                Inl e \<Rightarrow> Some e
              | Inr response \<Rightarrow> None)\<rparr>"
    and env: "map environment_of (PDict first # rest) =
          map (\<lambda>c. environment_of c @ env_values rt)
            (initial_definitions (task_definition_kwargs self))"
    and fields: "dict_get first ''name'' = PStr ''flow-container''"
      "dict_get first ''image'' = img" "dict_get first ''command'' = flow_command"
    using setup_env_synthesized [OF client absent wf resolved] by blast
  have ds: "container_definitions (task_definition_kwargs (state (setup_env rt self flow)))
      = PDict first # rest"
    by (simp add: r container_definitions_set)
  have len: "length (PDict first # rest) =
      length (initial_definitions (task_definition_kwargs self))"
    using env by (metis length_map)
  have one: "length (PDict first # rest) = 1"
    if "\<not> truthy (dict_get (task_definition_kwargs self) ''containerDefinitions'')"
    using len that by (simp add: initial_definitions_def)
  show ?thesis
    unfolding ds using env fields len one
    by (simp add: r field_def env_values_def flow_command_def)
qed

theorem setup_registers_synthesized_definition_witness:
  "task_definition_kwargs (state
     (setup_env (example_runtime (Inl (ClientError ''ClientException'')))
        (example_environment
           [(''family'', PStr ''flow''),
         (''containerDefinitions'',
          PList [PDict [(''name'', PStr ''app''), (''cpu'', PInt 256)],
                 PDict [(''name'', PStr ''sidecar''),
                        (''environment'',
                         PList [PDict [(''name'', PStr ''MODE''),
                                       (''value'', PStr ''debug'')]])]])])
        ''image:1'')) =
     [(''family'', PStr ''flow''),
      (''containerDefinitions'',
       PList
         [PDict
            [(''name'', PStr ''flow-container''), (''cpu'', PInt 256),
             (''environment'',
              PList
                [PDict [(''name'', PStr ''PREFECT__CLOUD__GRAPHQL''),
                       (''value'', PStr ''https://api.prefect.io/graphql'')],
                 PDict [(''name'', PStr ''PREFECT__CLOUD__USE_LOCAL_SECRETS''),
                       (''value'', PStr ''false'')],
                 PDict [(''name'', PStr ''PREFECT__ENGINE__FLOW_RUNNER__DEFAULT_CLASS''),
                       (''value'', PStr ''prefect.engine.cloud.CloudFlowRunner'')],
                 PDict [(''name'', PStr ''PREFECT__ENGINE__TASK_RUNNER__DEFAULT_CLASS''),
                       (''value'', PStr ''prefect.engine.cloud.CloudTaskRunner'')],
                 PDict [(''name'', PStr ''PREFECT__LOGGING__LOG_TO_CLOUD''),
                       (''value'', PStr ''true'')],
                 PDict [(''name'', PStr ''PREFECT__LOGGING__EXTRA_LOGGERS''),
                       (''value'', PStr ''[]'')]]),
             (''image'', PStr ''image:1''),
             (''command'',
              PList [PStr ''/bin/sh'', PStr ''-c'',
                     PStr (''python -c 'import prefect; prefect.environments.FargateTaskEnvironment().run_flow()''
                           @ [CHR 0x27])])],
          PDict
            [(''name'', PStr ''sidecar''),
             (''environment'',
              PList
                [PDict [(''name'', PStr ''MODE''),
                       (''value'', PStr ''debug'')],
                 PDict [(''name'', PStr ''PREFECT__CLOUD__GRAPHQL''),
                       (''value'', PStr ''https://api.prefect.io/graphql'')],
                 PDict [(''name'', PStr ''PREFECT__CLOUD__USE_LOCAL_SECRETS''),
                       (''value'', PStr ''false'')],
                 PDict [(''name'', PStr ''PREFECT__ENGINE__FLOW_RUNNER__DEFAULT_CLASS''),
                       (''value'', PStr ''prefect.engine.cloud.CloudFlowRunner'')],
                 PDict [(''name'', PStr ''PREFECT__ENGINE__TASK_RUNNER__DEFAULT_CLASS''),
                       (''value'', PStr ''prefect.engine.cloud.CloudTaskRunner'')],
                 PDict [(''name'', PStr ''PREFECT__LOGGING__LOG_TO_CLOUD''),
                       (''value'', PStr ''true'')],
                 PDict [(''name'', PStr ''PREFECT__LOGGING__EXTRA_LOGGERS''),
                       (''value'', PStr ''[]'')]])]])]
   \<and> calls
     (setup_env (example_runtime (Inl (ClientError ''ClientException'')))
        (example_environment
           [(''family'', PStr ''flow''),
         (''containerDefinitions'',
          PList [PDict [(''name'', PStr ''app''), (''cpu'', PInt 256)],
                 PDict [(''name'', PStr ''sidecar''),
                        (''environment'',
                         PList [PDict [(''name'', PStr ''MODE''),
                                       (''value'', PStr ''debug'')]])]])])
        ''image:1'') =
     [DescribeTaskDefinition (PStr ''flow''),
      RegisterTaskDefinition (task_definition_kwargs (state
        (setup_env (example_runtime (Inl (ClientError ''ClientException'')))
        (example_environment
           [(''family'', PStr ''flow''),
         (''containerDefinitions'',
          PList [PDict [(''name'', PStr ''app''), (''cpu'', PInt 256)],
                 PDict [(''name'', PStr ''sidecar''),
                        (''environment'',
                         PList [PDict [(''name'', PStr ''MODE''),
                                       (''value'', PStr ''debug'')]])]])])
        ''image:1'')))]
   \<and> raised
     (setup_env (example_runtime (Inl (ClientError ''ClientException'')))
        (example_environment
           [(''family'', PStr ''flow''),
         (''containerDefinitions'',
          PList [PDict [(''name'', PStr ''app''), (''cpu'', PInt 256)],
                 PDict [(''name'', PStr ''sidecar''),
                        (''environment'',
                         PList [PDict [(''name'', PStr ''MODE''),
                                       (''value'', PStr ''debug'')]])]])])
        ''image:1'') = None"
proof -
  let ?rt = "example_runtime (Inl (ClientError ''ClientException''))"
  let ?self = "example_environment
        [(''family'', PStr ''flow''),
         (''containerDefinitions'',
          PList [PDict [(''name'', PStr ''app''), (''cpu'', PInt 256)],
                 PDict [(''name'', PStr ''sidecar''),
                        (''environment'',
                         PList [PDict [(''name'', PStr ''MODE''),
                                       (''value'', PStr ''debug'')]])]])]"
  have client: "boto3_client ?rt (aws_access_key_id ?self) (aws_secret_access_key ?self)
      (aws_session_token ?self) (region_name ?self) =
      Inr (example_client (Inl (ClientError ''ClientException'')))"
    by (simp add: example_runtime_def)
  have absent: "describe_task_definition (example_client (Inl (ClientError ''ClientException'')))
      (dict_get (task_definition_kwargs ?self) ''family'') = Inl (ClientError ''ClientException'')"
    by (simp add: example_client_def)
  have wf: "well_formed_definitions (task_definition_kwargs ?self)"
    by (simp add: example_environment_def well_formed_definitions_def
          well_formed_container_def dict_get_def)
  have resolved: "get_flow_image ?rt ''image:1'' = Inr (PStr ''image:1'')"
    by (simp add: example_runtime_def)
  note t = setup_registers_synthesized_definition [OF client absent wf resolved]
  have outcome: "setup_env ?rt ?self ''image:1'' =
      \<lparr>state = example_environment
         [(''family'', PStr ''flow''),
      (''containerDefinitions'',
       PList
         [PDict
            [(''name'', PStr ''flow-container''), (''cpu'', PInt 256),
             (''environment'',
              PList
                [PDict [(''name'', PStr ''PREFECT__CLOUD__GRAPHQL''),
                       (''value'', PStr ''https://api.prefect.io/graphql'')],
                 PDict [(''name'', PStr ''PREFECT__CLOUD__USE_LOCAL_SECRETS''),
                       (''value'', PStr ''false'')],
                 PDict [(''name'', PStr ''PREFECT__ENGINE__FLOW_RUNNER__DEFAULT_CLASS''),
                       (''value'', PStr ''prefect.engine.cloud.CloudFlowRunner'')],
                 PDict [(''name'', PStr ''PREFECT__ENGINE__TASK_RUNNER__DEFAULT_CLASS''),
                       (''value'', PStr ''prefect.engine.cloud.CloudTaskRunner'')],
                 PDict [(''name'', PStr ''PREFECT__LOGGING__LOG_TO_CLOUD''),
                       (''value'', PStr ''true'')],
                 PDict [(''name'', PStr ''PREFECT__LOGGING__EXTRA_LOGGERS''),
                       (''value'', PStr ''[]'')]]),
             (''image'', PStr ''image:1''),
             (''command'',
              PList [PStr ''/bin/sh'', PStr ''-c'',
                     PStr (''python -c 'import prefect; prefect.environments.FargateTaskEnvironment().run_flow()''
                           @ [CHR 0x27])])],
          PDict
            [(''name'', PStr ''sidecar''),
             (''environment'',
              PList
                [PDict [(''name'', PStr ''MODE''),
                       (''value'', PStr ''debug'')],
                 PDict [(''name'', PStr ''PREFECT__CLOUD__GRAPHQL''),
                       (''value'', PStr ''https://api.prefect.io/graphql'')],
                 PDict [(''name'', PStr ''PREFECT__CLOUD__USE_LOCAL_SECRETS''),
                       (''value'', PStr ''false'')],
                 PDict [(''name'', PStr ''PREFECT__ENGINE__FLOW_RUNNER__DEFAULT_CLASS''),
                       (''value'', PStr ''prefect.engine.cloud.CloudFlowRunner'')],
                 PDict [(''name'', PStr ''PREFECT__ENGINE__TASK_RUNNER__DEFAULT_CLASS''),
                       (''value'', PStr ''prefect.engine.cloud.CloudTaskRunner'')],
                 PDict [(''name'', PStr ''PREFECT__LOGGING__LOG_TO_CLOUD''),
                       (''value'', PStr ''true'')],
                 PDict [(''name'', PStr ''PREFECT__LOGGING__EXTRA_LOGGERS''),
                       (''value'', PStr ''[]'')]])]])],
       calls =
         [DescribeTaskDefinition (PStr ''flow''),
          RegisterTaskDefinition
            [(''family'', PStr ''flow''),
      (''containerDefinitions'',
       PList
         [PDict
            [(''name'', PStr ''flow-container''), (''cpu'', PInt 256),
             (''environment'',
              PList
                [PDict [(''name'', PStr ''PREFECT__CLOUD__GRAPHQL''),
                       (''value'', PStr ''https://api.prefect.io/graphql'')],
                 PDict [(''name'', PStr ''PREFECT__CLOUD__USE_LOCAL_SECRETS''),
                       (''value'', PStr ''false'')],
                 PDict [(''name'', PStr ''PREFECT__ENGINE__FLOW_RUNNER__DEFAULT_CLASS''),
                       (''value'', PStr ''prefect.engine.cloud.CloudFlowRunner'')],
                 PDict [(''name'', PStr ''PREFECT__ENGINE__TASK_RUNNER__DEFAULT_CLASS''),
                       (''value'', PStr ''prefect.engine.cloud.CloudTaskRunner'')],
                 PDict [(''name'', PStr ''PREFECT__LOGGING__LOG_TO_CLOUD''),
                       (''value'', PStr ''true'')],
                 PDict [(''name'', PStr ''PREFECT__LOGGING__EXTRA_LOGGERS''),
                       (''value'', PStr ''[]'')]]),
             (''image'', PStr ''image:1''),
             (''command'',
              PList [PStr ''/bin/sh'', PStr ''-c'',
                     PStr (''python -c 'import prefect; prefect.environments.FargateTaskEnvironment().run_flow()''
                           @ [CHR 0x27])])],
          PDict
            [(''name'', PStr ''sidecar''),
             (''environment'',
              PList
                [PDict [(''name'', PStr ''MODE''),
                       (''value'', PStr ''debug'')],
                 PDict [(''name'', PStr ''PREFECT__CLOUD__GRAPHQL''),
                       (''value'', PStr ''https://api.prefect.io/graphql'')],
                 PDict [(''name'', PStr ''PREFECT__CLOUD__USE_LOCAL_SECRETS''),
                       (''value'', PStr ''false'')],
                 PDict [(''name'', PStr ''PREFECT__ENGINE__FLOW_RUNNER__DEFAULT_CLASS''),
                       (''value'', PStr ''prefect.engine.cloud.CloudFlowRunner'')],
                 PDict [(''name'', PStr ''PREFECT__ENGINE__TASK_RUNNER__DEFAULT_CLASS''),
                       (''value'', PStr ''prefect.engine.cloud.CloudTaskRunner'')],
                 PDict [(''name'', PStr ''PREFECT__LOGGING__LOG_TO_CLOUD''),
                       (''value'', PStr ''true'')],
                 PDict [(''name'', PStr ''PREFECT__LOGGING__EXTRA_LOGGERS''),
                       (''value'', PStr ''[]'')]])]])]],
       raised = None\<rparr>"
    by (simp add: setup_env_def existence_check_def synthesize_definition_def
        create_container_definitions_def set_environment_variables_def
        extend_environment_def default_first_container_def first_container_get_def
        first_container_set_def subscript_definitions_def get_definitions_def
        first_item_def set_image_def dict_get_def set_definition_def
        current_definitions_def store_kwarg_def env_values_def flow_command_def
        example_runtime_def [of "Inl (ClientError ''ClientException'')"]
        example_environment_def example_client_def)
  show ?thesis
    using t by (simp only: outcome) (simp add: example_environment_def)
qed

text \<open>
  The claim as stated fails where it says "exactly one container definition": two
  configured entries stay two.
\<close>

theorem setup_two_containers_counterexample:
  "length (container_definitions (task_definition_kwargs (state
      (setup_env (example_runtime (Inl (ClientError ''ClientException'')))
         (example_environment
            [(''family'', PStr ''flow''),
             (''containerDefinitions'',
              PList [PDict [(''name'', PStr ''app'')], PDict [(''name'', PStr ''sidecar'')]])])
         ''image:1'')))) = 2"
  by (simp add: setup_env_def existence_check_def synthesize_definition_def
        create_container_definitions_def set_environment_variables_def
        extend_environment_def default_first_container_def first_container_get_def
        first_container_set_def subscript_definitions_def get_definitions_def
        first_item_def set_image_def dict_get_def container_definitions_def
        set_definition_def current_definitions_def store_kwarg_def
        example_runtime_def example_environment_def example_client_def)

section \<open>Setup called repeatedly\<close>










section \<open>Execute\<close>

lemma collect_kwargs_keys:
  "set (keys (collect_kwargs allowed acc kw)) \<subseteq> set (keys acc) \<union> set allowed"
proof (induction kw arbitrary: acc)
  case Nil
  then show ?case by simp
next
  case (Cons p kw)
  obtain k v where p: "p = (k, v)" by (cases p)
  show ?case
    using Cons.IH [of "dict_set acc k v"] Cons.IH [of acc] p
    by (auto simp: keys_dict_set)
qed

lemma init_run_kwargs_keys:
  assumes "snd (init rt a) = Inr self"
  shows "set (keys (task_run_kwargs self)) \<subseteq> set run_kwarg_list"
proof -
  have "task_run_kwargs self = collect_kwargs run_kwarg_list [] (arg_kwargs a)"
    using init_mappings [OF assms] by (simp add: parse_kwargs_def)
  then show ?thesis
    using collect_kwargs_keys [of run_kwarg_list "[]" "arg_kwargs a"]
    by (simp add: keys_def)
qed




end
